theory Spec2Isabelle
  imports Complex_Main
begin

section \<open>Python strings\<close>

text \<open>
  A Python \<open>str\<close> is modelled as a \<open>string\<close> whose characters are the code points
  below 256. The string operations the dashboard uses are \<open>str.strip()\<close>,
  \<open>str.lower()\<close>, \<open>str.startswith(p)\<close> and the substring test \<open>p in s\<close>.
\<close>

definition isspace :: "char \<Rightarrow> bool" where
  \<comment> \<open>the code points below 256 for which Python's \<open>str.isspace\<close> holds\<close>
  "isspace c = (of_char c \<in> {9, 10, 11, 12, 13, 28, 29, 30, 31, 32, 133, 160 :: nat})"

definition strip :: "string \<Rightarrow> string" where
  "strip s = rev (dropWhile isspace (rev (dropWhile isspace s)))"

definition lower_char :: "char \<Rightarrow> char" where
  \<comment> \<open>\<open>A\<close>..\<open>Z\<close> and the Latin-1 capitals move up by 32, everything else stays\<close>
  "lower_char c =
     (let n = (of_char c :: nat)
      in if (65 \<le> n \<and> n \<le> 90) \<or> (192 \<le> n \<and> n \<le> 222 \<and> n \<noteq> 215)
         then char_of (n + 32) else c)"

definition lower :: "string \<Rightarrow> string" where
  "lower s = map lower_char s"

fun startswith :: "string \<Rightarrow> string \<Rightarrow> bool" where
  \<comment> \<open>\<open>startswith s p\<close> is Python's \<open>s.startswith(p)\<close>\<close>
  "startswith s [] = True"
| "startswith [] (p # ps) = False"
| "startswith (c # cs) (p # ps) = (c = p \<and> startswith cs ps)"

fun contains :: "string \<Rightarrow> string \<Rightarrow> bool" where
  \<comment> \<open>\<open>contains p s\<close> is Python's \<open>p in s\<close>\<close>
  "contains p [] = (p = [])"
| "contains p (c # cs) = (startswith (c # cs) p \<or> contains p cs)"

section \<open>Spreadsheets as pandas reads them\<close>

text \<open>
  A cell is either missing (\<open>NaN\<close>, for which \<open>pd.notna\<close> is false and \<open>str\<close> gives
  \<open>nan\<close>) or a value, kept as the text \<open>str\<close> returns for it. A column label is a string
  or, where the header cell of the sheet holds a number, an integer; \<open>col.lower()\<close> raises
  \<open>AttributeError\<close> on the latter. Labels of one sheet are distinct, so a row is a
  function from labels to cells.
\<close>

datatype cell = NaN | Val string

datatype label = Label string | NumLabel int

datatype error = ReadError | AttributeError | KeyError

type_synonym row = "label \<Rightarrow> cell"

record dataframe =
  columns :: "label list"
  iterrows :: "row list"

fun notna :: "cell \<Rightarrow> bool" where
  "notna NaN = False"
| "notna (Val s) = True"

fun str :: "cell \<Rightarrow> string" where
  "str NaN = ''nan''"
| "str (Val s) = s"

fun label_lower :: "label \<Rightarrow> error + string" where
  "label_lower (Label s) = Inr (lower s)"
| "label_lower (NumLabel n) = Inl AttributeError"

section \<open>The normalised record\<close>

record state_entry =
  state :: string
  key_statutes :: string
  local_authority :: string
  notable_provisions :: string
  vulnerable_protections :: string
  civil_rights :: string
  disability_needs :: string
  language_access :: string
  equity_initiatives :: string
  emergency_declaration :: string
  mitigation_planning :: string
  mutual_aid :: string
  data_availability :: real
  region :: string

definition default_entry :: state_entry where
  \<comment> \<open>the factory of the \<open>defaultdict\<close>\<close>
  "default_entry =
     \<lparr> state = '''', key_statutes = '''', local_authority = '''', notable_provisions = '''',
       vulnerable_protections = '''', civil_rights = '''', disability_needs = '''',
       language_access = '''', equity_initiatives = '''', emergency_declaration = '''',
       mitigation_planning = '''', mutual_aid = '''', data_availability = 0,
       region = ''Unknown'' \<rparr>"

text \<open>
  \<open>state_data\<close> is a dictionary whose iteration order is its insertion order: an
  association list in which a new key goes to the end and an existing key keeps its place.
\<close>

type_synonym state_data = "(string \<times> state_entry) list"

fun setitem :: "string \<Rightarrow> state_entry \<Rightarrow> state_data \<Rightarrow> state_data" where
  "setitem k v [] = [(k, v)]"
| "setitem k v ((k', v') # kvs) = (if k' = k then (k, v) # kvs else (k', v') # setitem k v kvs)"

definition getitem :: "state_data \<Rightarrow> string \<Rightarrow> state_entry" where
  \<comment> \<open>\<open>state_data[k]\<close>: the stored entry, or a fresh default one\<close>
  "getitem sd k = (case map_of sd k of Some e \<Rightarrow> e | None \<Rightarrow> default_entry)"

definition state_mapping :: "(string \<times> string) list" where
  "state_mapping =
     [(''Iowa, etc.'', ''Iowa''),
      (''Others'', ''Wisconsin''),
      (''Guam, USVI, American Samoa, Northern Mariana I...'', ''Guam'')]"

definition non_state_entries :: "string list" where
  "non_state_entries =
     [''nan'', ''Approach'', ''Aspect'', ''Impact Area'', ''Protection Area'', ''Region'']"

section \<open>Mapping columns to standardised fields\<close>

definition has_value :: "string \<Rightarrow> bool" where
  \<comment> \<open>\<open>value and value != 'nan'\<close>\<close>
  "has_value v = (v \<noteq> [] \<and> v \<noteq> ''nan'')"

definition map_column :: "string \<Rightarrow> string \<Rightarrow> state_entry \<Rightarrow> state_entry" where
  \<comment> \<open>the \<open>if\<close>/\<open>elif\<close> chain on one column, given \<open>col_lower\<close> and \<open>value\<close>\<close>
  "map_column col_lower v e =
     (if contains ''statute'' col_lower \<or> contains ''code'' col_lower then
        (if has_value v then e\<lparr>key_statutes := v\<rparr> else e)
      else if contains ''local authority'' col_lower then
        (if has_value v then e\<lparr>local_authority := v\<rparr> else e)
      else if contains ''notable provision'' col_lower then
        (if has_value v then e\<lparr>notable_provisions := v\<rparr> else e)
      else if contains ''vulnerable'' col_lower \<and> contains ''protection'' col_lower then
        (if has_value v then e\<lparr>vulnerable_protections := v\<rparr> else e)
      else if contains ''civil rights'' col_lower \<or> contains ''discrimination'' col_lower then
        (if has_value v then e\<lparr>civil_rights := v\<rparr> else e)
      else if contains ''disability'' col_lower \<or> contains ''functional'' col_lower then
        (if has_value v then e\<lparr>disability_needs := v\<rparr> else e)
      else if contains ''language access'' col_lower then
        (if has_value v then e\<lparr>language_access := v\<rparr> else e)
      else if contains ''equity'' col_lower then
        (if has_value v then e\<lparr>equity_initiatives := v\<rparr> else e)
      else if contains ''emergency declaration'' col_lower then
        (if has_value v then e\<lparr>emergency_declaration := v\<rparr> else e)
      else if contains ''mitigation'' col_lower then
        (if has_value v then e\<lparr>mitigation_planning := v\<rparr> else e)
      else if contains ''mutual aid'' col_lower then
        (if has_value v then e\<lparr>mutual_aid := v\<rparr> else e)
      else e)"

definition cell_value :: "cell \<Rightarrow> string" where
  \<comment> \<open>\<open>str(row[col]) if pd.notna(row[col]) else ''\<close>\<close>
  "cell_value c = (if notna c then str c else '''')"

fun map_columns :: "label list \<Rightarrow> row \<Rightarrow> state_entry \<Rightarrow> state_entry \<times> error option" where
  \<comment> \<open>the loop over \<open>df.columns\<close>; an exception leaves the entry as mutated so far\<close>
  "map_columns [] r e = (e, None)"
| "map_columns (col # cols) r e =
     (case label_lower col of
        Inl err \<Rightarrow> (e, Some err)
      | Inr col_lower \<Rightarrow> map_columns cols r (map_column col_lower (cell_value (r col)) e))"

section \<open>Data availability and region\<close>

definition data_fields :: "('a state_entry_scheme \<Rightarrow> string) list" where
  "data_fields =
     [key_statutes, local_authority, notable_provisions,
      vulnerable_protections, civil_rights, disability_needs,
      language_access, equity_initiatives, emergency_declaration,
      mitigation_planning, mutual_aid]"

definition is_filled :: "string \<Rightarrow> bool" where
  \<comment> \<open>\<open>s and s.strip() and s != 'nan'\<close>\<close>
  "is_filled s = (s \<noteq> [] \<and> strip s \<noteq> [] \<and> s \<noteq> ''nan'')"

definition filled_fields :: "'a state_entry_scheme \<Rightarrow> nat" where
  "filled_fields e = length (filter (\<lambda>field. is_filled (field e)) data_fields)"

definition score :: "state_entry \<Rightarrow> state_entry" where
  "score e =
     e\<lparr>data_availability :=
         real (filled_fields e) / real (length (data_fields :: (state_entry \<Rightarrow> string) list))\<rparr>"

definition determine_region :: "string \<Rightarrow> state_entry \<Rightarrow> state_entry" where
  "determine_region file e =
     (if startswith file ''CA-WA-OR'' then e\<lparr>region := ''West Coast''\<rparr>
      else if contains ''Southwest'' file \<or> startswith file ''SW-'' then e\<lparr>region := ''Southwest''\<rparr>
      else if contains ''Midwest'' file then e\<lparr>region := ''Midwest''\<rparr>
      else if contains ''Northeast'' file then e\<lparr>region := ''Northeast''\<rparr>
      else if contains ''Appalachia'' file then e\<lparr>region := ''Appalachia''\<rparr>
      else if contains ''MTN'' file then e\<lparr>region := ''Mountain West''\<rparr>
      else if contains ''AK-HI'' file then e\<lparr>region := ''Alaska & Hawaii''\<rparr>
      else e)"

section \<open>Ingestion\<close>

definition state_name_of :: "cell \<Rightarrow> string" where
  \<comment> \<open>the trimmed cell text, rewritten by \<open>state_mapping\<close> where it is a key\<close>
  "state_name_of c =
     (let state_name = strip (str c)
      in case map_of state_mapping state_name of Some m \<Rightarrow> m | None \<Rightarrow> state_name)"

definition skipped :: "string \<Rightarrow> bool" where
  "skipped state_name = (state_name = [] \<or> state_name \<in> set non_state_entries)"

definition process_row ::
  "string \<Rightarrow> label list \<Rightarrow> label \<Rightarrow> row \<Rightarrow> state_data \<Rightarrow> state_data \<times> error option" where
  \<comment> \<open>the body of the loop over the rows of one file\<close>
  "process_row file cols state_col r sd =
     (let state_name = state_name_of (r state_col)
      in if skipped state_name then (sd, None)
         else
           (case map_columns cols r ((getitem sd state_name)\<lparr>state := state_name\<rparr>) of
              (e, Some err) \<Rightarrow> (setitem state_name e sd, Some err)
            | (e, None) \<Rightarrow> (setitem state_name (determine_region file (score e)) sd, None)))"

fun process_rows ::
  "string \<Rightarrow> label list \<Rightarrow> label \<Rightarrow> row list \<Rightarrow> state_data \<Rightarrow> state_data \<times> error option" where
  "process_rows file cols state_col [] sd = (sd, None)"
| "process_rows file cols state_col (r # rs) sd =
     (case process_row file cols state_col r sd of
        (sd', Some err) \<Rightarrow> (sd', Some err)
      | (sd', None) \<Rightarrow> process_rows file cols state_col rs sd')"

fun find_state_col :: "label list \<Rightarrow> error + label option" where
  "find_state_col [] = Inr None"
| "find_state_col (col # cols) =
     (case label_lower col of
        Inl err \<Rightarrow> Inl err
      | Inr l \<Rightarrow>
          if contains ''state'' l \<or> contains ''territory'' l \<or> contains ''jurisdiction'' l
          then Inr (Some col) else find_state_col cols)"

text \<open>
  A file is its name and what \<open>pd.read_excel\<close> makes of it: \<open>None\<close> where reading raises.
  Every exception inside the \<open>try\<close> ends the file and keeps what was written before it.
\<close>

type_synonym excel_file = "string \<times> dataframe option"

definition process_file :: "excel_file \<Rightarrow> state_data \<Rightarrow> state_data \<times> error option" where
  "process_file f sd =
     (case snd f of
        None \<Rightarrow> (sd, Some ReadError)
      | Some df \<Rightarrow>
          (case find_state_col (columns df) of
             Inl err \<Rightarrow> (sd, Some err)
           | Inr None \<Rightarrow> (sd, None)
           | Inr (Some state_col) \<Rightarrow> process_rows (fst f) (columns df) state_col (iterrows df) sd))"

fun process_files :: "excel_file list \<Rightarrow> state_data \<Rightarrow> state_data" where
  "process_files [] sd = sd"
| "process_files (f # fs) sd = process_files fs (fst (process_file f sd))"

text \<open>
  The frame that is returned has the columns of the entries and the column
  \<open>state_code\<close>, which \<open>Series.map\<close> leaves missing where the name is not a key of
  \<open>state_abbrev\<close>. A frame built from no entries has no columns at all, so reading its
  column \<open>state\<close> raises \<open>KeyError\<close>; that line is outside the \<open>try\<close>.
\<close>

record df_row = state_entry +
  state_code :: "string option"

definition state_abbrev :: "(string \<times> string) list" where
  "state_abbrev =
     [(''Alabama'', ''AL''), (''Alaska'', ''AK''), (''Arizona'', ''AZ''), (''Arkansas'', ''AR''),
      (''California'', ''CA''), (''Colorado'', ''CO''), (''Connecticut'', ''CT''),
      (''Delaware'', ''DE''), (''Florida'', ''FL''), (''Georgia'', ''GA''),
      (''Hawaii'', ''HI''), (''Idaho'', ''ID''), (''Illinois'', ''IL''), (''Indiana'', ''IN''),
      (''Iowa'', ''IA''), (''Kansas'', ''KS''), (''Kentucky'', ''KY''), (''Louisiana'', ''LA''),
      (''Maine'', ''ME''), (''Maryland'', ''MD''), (''Massachusetts'', ''MA''),
      (''Michigan'', ''MI''), (''Minnesota'', ''MN''), (''Mississippi'', ''MS''),
      (''Missouri'', ''MO''), (''Montana'', ''MT''), (''Nebraska'', ''NE''), (''Nevada'', ''NV''),
      (''New Hampshire'', ''NH''), (''New Jersey'', ''NJ''), (''New Mexico'', ''NM''),
      (''New York'', ''NY''), (''North Carolina'', ''NC''), (''North Dakota'', ''ND''),
      (''Ohio'', ''OH''), (''Oklahoma'', ''OK''), (''Oregon'', ''OR''), (''Pennsylvania'', ''PA''),
      (''Rhode Island'', ''RI''), (''South Carolina'', ''SC''), (''South Dakota'', ''SD''),
      (''Tennessee'', ''TN''), (''Texas'', ''TX''), (''Utah'', ''UT''), (''Vermont'', ''VT''),
      (''Virginia'', ''VA''), (''Washington'', ''WA''), (''West Virginia'', ''WV''),
      (''Wisconsin'', ''WI''), (''Wyoming'', ''WY''),
      (''District of Columbia'', ''DC''), (''Puerto Rico'', ''PR'')]"

definition with_state_code :: "state_entry \<Rightarrow> df_row" where
  "with_state_code e = state_entry.extend e (df_row.fields (map_of state_abbrev (state e)))"

definition load_and_process_data :: "excel_file list \<Rightarrow> error + df_row list" where
  "load_and_process_data excel_files =
     (let state_data = process_files excel_files []
      in if state_data = [] then Inl KeyError
         else Inr (map with_state_code (map snd state_data)))"

section \<open>Presentation: levels, filters, counts\<close>

definition get_data_availability_level :: "real \<Rightarrow> string" where
  "get_data_availability_level s =
     (if s \<ge> 0.7 then ''Rich Data''
      else if s \<ge> 0.4 then ''Moderate Data''
      else ''Limited Data'')"

definition field_mapping :: "(string \<times> (df_row \<Rightarrow> string)) list" where
  "field_mapping =
     [(''vulnerable_protections'', vulnerable_protections),
      (''equity_initiatives'', equity_initiatives),
      (''civil_rights'', civil_rights),
      (''language_access'', language_access),
      (''disability_provisions'', disability_needs),
      (''emergency_powers'', emergency_declaration)]"

definition has_specific_data_type :: "df_row \<Rightarrow> string \<Rightarrow> bool" where
  \<comment> \<open>every field named by \<open>field_mapping\<close> is a column of the frame and holds a string\<close>
  "has_specific_data_type x data_type =
     (case map_of field_mapping data_type of
        Some field \<Rightarrow> is_filled (field x)
      | None \<Rightarrow> False)"

record session_state =
  selected_state :: "string option"
  filter_data_type :: string
  filter_region :: string

text \<open>The module's two frames: the loaded table and the view the widgets read.\<close>

record frames =
  df :: "df_row list"
  filtered_df :: "df_row list"

definition keep :: "string \<Rightarrow> df_row list \<Rightarrow> df_row list" where
  \<comment> \<open>\<open>filtered_df[filtered_df.apply(lambda x: has_specific_data_type(x, t), axis=1)]\<close>\<close>
  "keep t rows = filter (\<lambda>x. has_specific_data_type x t) rows"

definition apply_filters :: "session_state \<Rightarrow> frames \<Rightarrow> frames" where
  "apply_filters ss m =
     (let m1 = m\<lparr>filtered_df := df m\<rparr>;
          m2 =
            (if filter_data_type ss \<noteq> ''All'' then
               (if filter_data_type ss = ''Vulnerable Protections'' then
                  m1\<lparr>filtered_df := keep ''vulnerable_protections'' (filtered_df m1)\<rparr>
                else if filter_data_type ss = ''Equity Initiatives'' then
                  m1\<lparr>filtered_df := keep ''equity_initiatives'' (filtered_df m1)\<rparr>
                else if filter_data_type ss = ''Civil Rights'' then
                  m1\<lparr>filtered_df := keep ''civil_rights'' (filtered_df m1)\<rparr>
                else if filter_data_type ss = ''Language Access'' then
                  m1\<lparr>filtered_df := keep ''language_access'' (filtered_df m1)\<rparr>
                else if filter_data_type ss = ''Disability Provisions'' then
                  m1\<lparr>filtered_df := keep ''disability_provisions'' (filtered_df m1)\<rparr>
                else if filter_data_type ss = ''Emergency Powers'' then
                  m1\<lparr>filtered_df := keep ''emergency_powers'' (filtered_df m1)\<rparr>
                else m1)
             else m1)
      in if filter_region ss \<noteq> ''All''
         then m2\<lparr>filtered_df := filter (\<lambda>x. region x = filter_region ss) (filtered_df m2)\<rparr>
         else m2)"

definition territories :: "string list" where
  "territories =
     [''District of Columbia'', ''Puerto Rico'', ''Guam'', ''U.S. Virgin Islands'',
      ''American Samoa'', ''Northern Mariana Islands'']"

definition us_states_only :: "df_row list \<Rightarrow> df_row list" where
  "us_states_only rows = filter (\<lambda>x. state x \<notin> set territories) rows"

definition total_states :: "df_row list \<Rightarrow> nat" where
  "total_states rows = length (us_states_only rows)"

section \<open>Helpers for concrete sheets\<close>

definition row_of :: "(label \<times> cell) list \<Rightarrow> row" where
  \<comment> \<open>a row given by the cells it has; pandas pads every other cell of the frame with NaN\<close>
  "row_of kvs col = (case map_of kvs col of Some c \<Rightarrow> c | None \<Rightarrow> NaN)"

definition sheet :: "string \<Rightarrow> label list \<Rightarrow> (label \<times> cell) list list \<Rightarrow> excel_file" where
  "sheet file cols rs = (file, Some \<lparr>columns = cols, iterrows = map row_of rs\<rparr>)"

section \<open>The rule tables as the specification words them\<close>

text \<open>
  The specification names eleven topic fields and gives the column rules as an ordered
  table of which the first matching row applies; likewise for the region rules. These
  definitions follow that wording, to be compared with \<open>map_column\<close> and
  \<open>determine_region\<close> above.
\<close>

datatype topic =
  Key_statutes | Local_authority | Notable_provisions | Vulnerable_protections |
  Civil_rights | Disability_needs | Language_access | Equity_initiatives |
  Emergency_declaration | Mitigation_planning | Mutual_aid

fun field :: "topic \<Rightarrow> state_entry \<Rightarrow> string" where
  "field Key_statutes = key_statutes"
| "field Local_authority = local_authority"
| "field Notable_provisions = notable_provisions"
| "field Vulnerable_protections = vulnerable_protections"
| "field Civil_rights = civil_rights"
| "field Disability_needs = disability_needs"
| "field Language_access = language_access"
| "field Equity_initiatives = equity_initiatives"
| "field Emergency_declaration = emergency_declaration"
| "field Mitigation_planning = mitigation_planning"
| "field Mutual_aid = mutual_aid"

fun assign :: "topic \<Rightarrow> string \<Rightarrow> state_entry \<Rightarrow> state_entry" where
  "assign Key_statutes v e = e\<lparr>key_statutes := v\<rparr>"
| "assign Local_authority v e = e\<lparr>local_authority := v\<rparr>"
| "assign Notable_provisions v e = e\<lparr>notable_provisions := v\<rparr>"
| "assign Vulnerable_protections v e = e\<lparr>vulnerable_protections := v\<rparr>"
| "assign Civil_rights v e = e\<lparr>civil_rights := v\<rparr>"
| "assign Disability_needs v e = e\<lparr>disability_needs := v\<rparr>"
| "assign Language_access v e = e\<lparr>language_access := v\<rparr>"
| "assign Equity_initiatives v e = e\<lparr>equity_initiatives := v\<rparr>"
| "assign Emergency_declaration v e = e\<lparr>emergency_declaration := v\<rparr>"
| "assign Mitigation_planning v e = e\<lparr>mitigation_planning := v\<rparr>"
| "assign Mutual_aid v e = e\<lparr>mutual_aid := v\<rparr>"

definition topics :: "topic list" where
  "topics =
     [Key_statutes, Local_authority, Notable_provisions, Vulnerable_protections,
      Civil_rights, Disability_needs, Language_access, Equity_initiatives,
      Emergency_declaration, Mitigation_planning, Mutual_aid]"

definition rule_table :: "((string \<Rightarrow> bool) \<times> topic) list" where
  "rule_table =
     [(\<lambda>h. contains ''statute'' h \<or> contains ''code'' h, Key_statutes),
      (\<lambda>h. contains ''local authority'' h, Local_authority),
      (\<lambda>h. contains ''notable provision'' h, Notable_provisions),
      (\<lambda>h. contains ''vulnerable'' h \<and> contains ''protection'' h, Vulnerable_protections),
      (\<lambda>h. contains ''civil rights'' h \<or> contains ''discrimination'' h, Civil_rights),
      (\<lambda>h. contains ''disability'' h \<or> contains ''functional'' h, Disability_needs),
      (\<lambda>h. contains ''language access'' h, Language_access),
      (\<lambda>h. contains ''equity'' h, Equity_initiatives),
      (\<lambda>h. contains ''emergency declaration'' h, Emergency_declaration),
      (\<lambda>h. contains ''mitigation'' h, Mitigation_planning),
      (\<lambda>h. contains ''mutual aid'' h, Mutual_aid)]"

fun first_match :: "(('a \<Rightarrow> bool) \<times> 'b) list \<Rightarrow> 'a \<Rightarrow> 'b option" where
  "first_match [] x = None"
| "first_match ((p, t) # rules) x = (if p x then Some t else first_match rules x)"

definition first_rule :: "string \<Rightarrow> topic option" where
  \<comment> \<open>the target of the first rule of the table that the lower-cased header matches\<close>
  "first_rule h = first_match rule_table h"

definition region_rules :: "((string \<Rightarrow> bool) \<times> string) list" where
  "region_rules =
     [(\<lambda>f. startswith f ''CA-WA-OR'', ''West Coast''),
      (\<lambda>f. contains ''Southwest'' f \<or> startswith f ''SW-'', ''Southwest''),
      (\<lambda>f. contains ''Midwest'' f, ''Midwest''),
      (\<lambda>f. contains ''Northeast'' f, ''Northeast''),
      (\<lambda>f. contains ''Appalachia'' f, ''Appalachia''),
      (\<lambda>f. contains ''MTN'' f, ''Mountain West''),
      (\<lambda>f. contains ''AK-HI'' f, ''Alaska & Hawaii'')]"

definition file_region :: "string \<Rightarrow> string option" where
  \<comment> \<open>the region a file name implies; \<open>None\<close> is the specification's Unknown\<close>
  "file_region f = first_match region_rules f"

definition fifty_states :: "string list" where
  \<comment> \<open>the allow-list: the names of \<open>state_abbrev\<close> but the federal district and Puerto Rico\<close>
  "fifty_states =
     filter (\<lambda>n. n \<noteq> ''District of Columbia'' \<and> n \<noteq> ''Puerto Rico'') (map fst state_abbrev)"

definition non_empty_fields :: "'a state_entry_scheme \<Rightarrow> nat" where
  \<comment> \<open>the specification's count of non-empty topic fields\<close>
  "non_empty_fields e = length (filter (\<lambda>f. f e \<noteq> []) data_fields)"

section \<open>Invariants and sample sheets\<close>

definition keyed :: "state_data \<Rightarrow> bool" where
  \<comment> \<open>the keys are distinct and every entry carries its key as its name\<close>
  "keyed sd = (distinct (map fst sd) \<and> list_all (\<lambda>p. state (snd p) = fst p) sd)"

definition midwest_sheet :: excel_file where
  "midwest_sheet =
     sheet ''Midwest-states.xlsx''
       [Label ''State'', Label ''Mitigation Planning'', Label ''Vulnerable Population Protections'']
       [[(Label ''State'', Val ''Ohio''), (Label ''Mitigation Planning'', Val ''Plan A''),
         (Label ''Vulnerable Population Protections'', Val ''X'')],
        [(Label ''State'', Val ''Iowa, etc.''), (Label ''Mitigation Planning'', Val ''Plan C'')],
        [(Label ''State'', Val '' Ohio ''), (Label ''Mitigation Planning'', NaN)]]"

definition northeast_cols :: "label list" where
  "northeast_cols =
     [Label ''Jurisdiction'', Label ''Equity Programs'', Label ''Vulnerable Population Protections'']"

definition northeast_row :: "(label \<times> cell) list" where
  "northeast_row =
     [(Label ''Jurisdiction'', Val ''Ohio''), (Label ''Equity Programs'', Val ''Program B''),
      (Label ''Vulnerable Population Protections'', NaN)]"

definition northeast_sheet :: excel_file where
  "northeast_sheet = sheet ''Northeast-states.xlsx'' northeast_cols [northeast_row]"

definition blank_cols :: "label list" where
  "blank_cols = [Label ''State'', Label ''Statute'', Label ''Civil Rights'', Label ''Mitigation'']"

definition blank_row :: "(label \<times> cell) list" where
  \<comment> \<open>two cells that hold white space only\<close>
  "blank_row =
     [(Label ''State'', Val ''Ohio''), (Label ''Statute'', Val '' ''),
      (Label ''Civil Rights'', Val ''  ''), (Label ''Mitigation'', Val ''Plan A'')]"

definition blank_sheet :: excel_file where
  "blank_sheet = sheet ''Midwest-states.xlsx'' blank_cols [blank_row]"

definition supplies :: "label list \<Rightarrow> row \<Rightarrow> topic \<Rightarrow> bool" where
  \<comment> \<open>some column of the row is classified to the topic and its cell value is not empty\<close>
  "supplies cols r t =
     list_ex (\<lambda>col. case label_lower col of
                       Inl err \<Rightarrow> False
                     | Inr l \<Rightarrow> first_rule l = Some t \<and> cell_value (r col) \<noteq> []) cols"

fun textual :: "label \<Rightarrow> bool" where
  "textual (Label s) = True"
| "textual (NumLabel n) = False"

definition clean :: "state_entry \<Rightarrow> bool" where
  \<comment> \<open>no topic field holds the text \<open>nan\<close>\<close>
  "clean e = list_all (\<lambda>t. field t e \<noteq> ''nan'') topics"

definition nan_sheet :: excel_file where
  "nan_sheet =
     sheet ''territories.xlsx''
       [Label ''Territory'', Label ''Key Statutes'', Label ''Civil Rights'']
       [[(Label ''Territory'', Val ''Guam''), (Label ''Key Statutes'', Val ''nan''),
         (Label ''Civil Rights'', NaN)]]"

definition blank_entry :: state_entry where
  \<comment> \<open>what \<open>blank_sheet\<close> leaves for Ohio: three fields written, two of them blank\<close>
  "blank_entry =
     default_entry\<lparr>state := ''Ohio'', key_statutes := '' '', civil_rights := ''  '',
       mitigation_planning := ''Plan A'', data_availability := 1 / 11, region := ''Midwest''\<rparr>"

definition regions_table :: "df_row list" where
  "regions_table =
     [with_state_code (default_entry\<lparr>state := ''Ohio'', civil_rights := ''Act 1'',
        region := ''Midwest''\<rparr>),
      with_state_code (default_entry\<lparr>state := ''Iowa'', key_statutes := ''Code 29C'',
        region := ''Midwest''\<rparr>),
      with_state_code (default_entry\<lparr>state := ''Maine'', civil_rights := ''Act 2'',
        region := ''Northeast''\<rparr>),
      with_state_code (default_entry\<lparr>state := ''Utah'', civil_rights := ''Act 3'',
        region := ''Mountain West''\<rparr>)]"

definition unlisted_sheet :: excel_file where
  "unlisted_sheet =
     sheet ''SW-tribal.xlsx'' [Label ''Jurisdiction'', Label ''Mutual Aid'']
       [[(Label ''Jurisdiction'', Val ''Navajo Nation''), (Label ''Mutual Aid'', Val ''Compact'')]]"

definition scored :: "'a state_entry_scheme \<Rightarrow> bool" where
  \<comment> \<open>the score is up to date with the topic fields\<close>
  "scored e = (data_availability e = real (filled_fields e) / 11)"

definition textual_file :: "excel_file \<Rightarrow> bool" where
  "textual_file f = (case snd f of None \<Rightarrow> True | Some d \<Rightarrow> list_all textual (columns d))"

definition midwest_a_sheet :: excel_file where
  "midwest_a_sheet =
     sheet ''Midwest-a.xlsx'' [Label ''State'', Label ''Statute'']
       [[(Label ''State'', Val ''Ohio''), (Label ''Statute'', Val ''S1'')]]"

definition northeast_b_sheet :: excel_file where
  \<comment> \<open>the third header cell holds the number 2024\<close>
  "northeast_b_sheet =
     sheet ''Northeast-b.xlsx'' [Label ''State'', Label ''Mitigation'', NumLabel 2024]
       [[(Label ''State'', Val ''Ohio''), (Label ''Mitigation'', Val ''M1''),
         (NumLabel 2024, Val ''12'')]]"

section \<open>Basic facts\<close>

lemma chain_generic:
  "(if P1 x then g Key_statutes
    else if P2 x then g Local_authority
    else if P3 x then g Notable_provisions
    else if P4 x then g Vulnerable_protections
    else if P5 x then g Civil_rights
    else if P6 x then g Disability_needs
    else if P7 x then g Language_access
    else if P8 x then g Equity_initiatives
    else if P9 x then g Emergency_declaration
    else if P10 x then g Mitigation_planning
    else if P11 x then g Mutual_aid
    else d) =
   (case first_match
           [(P1, Key_statutes), (P2, Local_authority), (P3, Notable_provisions),
            (P4, Vulnerable_protections), (P5, Civil_rights), (P6, Disability_needs),
            (P7, Language_access), (P8, Equity_initiatives), (P9, Emergency_declaration),
            (P10, Mitigation_planning), (P11, Mutual_aid)] x
    of None \<Rightarrow> d | Some t \<Rightarrow> g t)"
  by simp

lemma map_column_first_rule:
  "map_column l v e =
     (case first_rule l of None \<Rightarrow> e | Some t \<Rightarrow> if has_value v then assign t v e else e)"
  unfolding first_rule_def rule_table_def
  by (subst chain_generic [symmetric]) (simp only: map_column_def assign.simps)

lemma assign_frame [simp]:
  "state (assign t v e) = state e"
  "region (assign t v e) = region e"
  "data_availability (assign t v e) = data_availability e"
  by (cases t; simp)+

lemma field_assign: "field t' (assign t v e) = (if t' = t then v else field t' e)"
  by (cases t; cases t'; simp)

lemma map_column_frame [simp]:
  "state (map_column l v e) = state e"
  "region (map_column l v e) = region e"
  "data_availability (map_column l v e) = data_availability e"
  by (simp_all add: map_column_first_rule split: option.split)

lemma map_columns_frame [simp]:
  "state (fst (map_columns cols r e)) = state e"
  "region (fst (map_columns cols r e)) = region e"
  "data_availability (fst (map_columns cols r e)) = data_availability e"
  by (induction cols arbitrary: e; simp split: sum.split)+

lemma determine_region_frame [simp]:
  "state (determine_region file e) = state e"
  "data_availability (determine_region file e) = data_availability e"
  "field t (determine_region file e) = field t e"
  by (cases t; simp add: determine_region_def)+

lemma score_frame [simp]:
  "state (score e) = state e"
  "region (score e) = region e"
  "field t (score e) = field t e"
  by (cases t; simp add: score_def)+

lemma getitem_setitem: "getitem (setitem k v sd) k' = (if k' = k then v else getitem sd k')"
  by (induction sd) (auto simp: getitem_def)

lemma keys_setitem:
  "map fst (setitem k v sd) = (if k \<in> set (map fst sd) then map fst sd else map fst sd @ [k])"
  by (induction sd) force+

lemma set_setitem: "set (setitem k v sd) \<subseteq> insert (k, v) (set sd)"
  by (induction sd) (auto split: if_splits)

text \<open>
  One row, with the two outcomes of the column loop side by side: the entry is stored
  either scored and region-tagged, or as the exception left it.
\<close>

lemma process_row_unfold:
  "process_row file cols sc r sd =
     (if skipped (state_name_of (r sc)) then (sd, None)
      else (setitem (state_name_of (r sc))
              (if snd (map_columns cols r
                        ((getitem sd (state_name_of (r sc)))\<lparr>state := state_name_of (r sc)\<rparr>)) = None
               then determine_region file (score (fst (map_columns cols r
                        ((getitem sd (state_name_of (r sc)))\<lparr>state := state_name_of (r sc)\<rparr>))))
               else fst (map_columns cols r
                        ((getitem sd (state_name_of (r sc)))\<lparr>state := state_name_of (r sc)\<rparr>))) sd,
            snd (map_columns cols r
                        ((getitem sd (state_name_of (r sc)))\<lparr>state := state_name_of (r sc)\<rparr>))))"
  by (simp add: process_row_def Let_def split: prod.split option.split)

text \<open>A property that every row keeps is kept by the whole batch of files.\<close>

lemma process_rows_invariant:
  assumes "P sd"
    and "\<And>r sd. P sd \<Longrightarrow> P (fst (process_row file cols sc r sd))"
  shows "P (fst (process_rows file cols sc rs sd))"
  using assms(1)
proof (induction rs arbitrary: sd)
  case Nil
  then show ?case by simp
next
  case (Cons r rs)
  have step: "P (fst (process_row file cols sc r sd))"
    using Cons.prems assms(2) by blast
  show ?case
  proof (cases "process_row file cols sc r sd")
    case (Pair sd' err)
    with step have "P sd'" by simp
    with Pair Cons.IH show ?thesis by (cases err) simp_all
  qed
qed

lemma process_file_invariant:
  assumes "P sd"
    and "\<And>file cols sc r sd. P sd \<Longrightarrow> P (fst (process_row file cols sc r sd))"
  shows "P (fst (process_file f sd))"
  using assms process_rows_invariant [of P sd]
  by (simp add: process_file_def split: option.split sum.split)

lemma process_files_invariant:
  assumes "P sd"
    and "\<And>file cols sc r sd. P sd \<Longrightarrow> P (fst (process_row file cols sc r sd))"
  shows "P (process_files fs sd)"
  using assms(1)
proof (induction fs arbitrary: sd)
  case Nil
  then show ?case by simp
next
  case (Cons f fs)
  then show ?case using process_file_invariant [of P sd f] assms(2) by simp
qed

lemma keyed_setitem: "keyed sd \<Longrightarrow> state v = k \<Longrightarrow> keyed (setitem k v sd)"
  using set_setitem [of k v sd]
  by (auto simp: keyed_def keys_setitem list_all_iff)

lemma keyed_process_row: "keyed sd \<Longrightarrow> keyed (fst (process_row file cols sc r sd))"
  by (simp add: process_row_unfold keyed_setitem)

lemma keyed_process_files: "keyed (process_files fs [])"
  by (rule process_files_invariant) (simp_all add: keyed_def keyed_process_row [unfolded keyed_def])

lemma state_with_state_code [simp]: "state (with_state_code e) = state e"
  by (simp add: with_state_code_def state_entry.defs)

text \<open>A row adds at most its own name to the keys, and only where it is new.\<close>

lemma process_row_keys:
  "map fst (fst (process_row file cols sc r sd)) =
     (if skipped (state_name_of (r sc)) \<or> state_name_of (r sc) \<in> set (map fst sd)
      then map fst sd else map fst sd @ [state_name_of (r sc)])"
  by (simp add: process_row_unfold keys_setitem)

section \<open>The claims\<close>

text \<open>
  C1. Whatever the files are, the table that \<open>load_and_process_data\<close> returns holds no
  jurisdiction name twice: a row whose name is already a key updates the entry stored
  under that key (\<open>process_row_keys\<close>), so the names of the table are the distinct keys
  of \<open>state_data\<close>.
\<close>

theorem ingest_unique_names:
  "load_and_process_data excel_files = Inr table \<Longrightarrow> distinct (map state table)"
proof -
  assume a: "load_and_process_data excel_files = Inr table"
  let ?sd = "process_files excel_files []"
  from a have t: "table = map with_state_code (map snd ?sd)"
    by (simp add: load_and_process_data_def Let_def split: if_splits)
  have k: "keyed ?sd" by (rule keyed_process_files)
  then have "map state table = map fst ?sd"
    unfolding t by (simp add: keyed_def list_all_iff)
  with k show ?thesis by (simp add: keyed_def)
qed

theorem ingest_unique_names_witness:
  "load_and_process_data [midwest_sheet, northeast_sheet] =
     Inr [with_state_code (default_entry\<lparr>state := ''Ohio'', vulnerable_protections := ''X'',
            equity_initiatives := ''Program B'', mitigation_planning := ''Plan A'',
            data_availability := 3 / 11, region := ''Northeast''\<rparr>),
          with_state_code (default_entry\<lparr>state := ''Iowa'', mitigation_planning := ''Plan C'',
            data_availability := 1 / 11, region := ''Midwest''\<rparr>)] \<and>
   distinct (map state
       [with_state_code (default_entry\<lparr>state := ''Ohio'', vulnerable_protections := ''X'',
            equity_initiatives := ''Program B'', mitigation_planning := ''Plan A'',
            data_availability := 3 / 11, region := ''Northeast''\<rparr>),
        with_state_code (default_entry\<lparr>state := ''Iowa'', mitigation_planning := ''Plan C'',
            data_availability := 1 / 11, region := ''Midwest''\<rparr>)])"
proof -
  have h: "load_and_process_data [midwest_sheet, northeast_sheet] =
     Inr [with_state_code (default_entry\<lparr>state := ''Ohio'', vulnerable_protections := ''X'',
            equity_initiatives := ''Program B'', mitigation_planning := ''Plan A'',
            data_availability := 3 / 11, region := ''Northeast''\<rparr>),
          with_state_code (default_entry\<lparr>state := ''Iowa'', mitigation_planning := ''Plan C'',
            data_availability := 1 / 11, region := ''Midwest''\<rparr>)]"
    by code_simp
  show ?thesis by (rule conjI [OF h ingest_unique_names [OF h]])
qed

text \<open>
  C5. A row whose trimmed, name-mapped jurisdiction value is empty, the text \<open>nan\<close> or
  one of the five header strings is dropped: the dictionary is returned as it was, so no
  record is created and none is changed.
\<close>

theorem non_state_rows_are_discarded:
  assumes "state_name_of (r state_col) = n"
    and "n = '''' \<or> n = ''nan'' \<or>
         n \<in> set [''Approach'', ''Aspect'', ''Impact Area'', ''Protection Area'', ''Region'']"
  shows "process_row file cols state_col r sd = (sd, None)"
proof -
  from assms(2) have "skipped n"
    by (auto simp: skipped_def non_state_entries_def)
  with assms(1) show ?thesis
    by (simp add: process_row_def)
qed

theorem non_state_rows_are_discarded_witness:
  "state_name_of (row_of [(Label ''Aspect / State'', Val '' Aspect ''), (Label ''Key Statute'', Val ''Impact Area'')]
       (Label ''Aspect / State'')) = ''Aspect'' \<and>
   process_row ''Midwest-states.xlsx'' [Label ''Aspect / State'', Label ''Key Statute''] (Label ''Aspect / State'')
     (row_of [(Label ''Aspect / State'', Val '' Aspect ''), (Label ''Key Statute'', Val ''Impact Area'')])
     [(''Ohio'', default_entry\<lparr>state := ''Ohio''\<rparr>)] =
   ([(''Ohio'', default_entry\<lparr>state := ''Ohio''\<rparr>)], None)"
proof -
  have n: "state_name_of (row_of [(Label ''Aspect / State'', Val '' Aspect ''), (Label ''Key Statute'', Val ''Impact Area'')]
       (Label ''Aspect / State'')) = ''Aspect''"
    by code_simp
  have m: "''Aspect'' = '''' \<or> ''Aspect'' = ''nan'' \<or>
         ''Aspect'' \<in> set [''Approach'', ''Aspect'', ''Impact Area'', ''Protection Area'', ''Region'']"
    by simp
  show ?thesis
    by (rule conjI [OF n non_state_rows_are_discarded
          [where r = "row_of [(Label ''Aspect / State'', Val '' Aspect ''),
                              (Label ''Key Statute'', Val ''Impact Area'')]"
             and state_col = "Label ''Aspect / State''", OF n m]])
qed



text \<open>
  C8. The level of a score: at least 0.7 is rich, from 0.4 up to but not including 0.7 is
  moderate, anything lower is limited, with the four boundary values as stated. Scores
  are real numbers here, each decimal literal standing for the number it writes.
\<close>

theorem coverage_levels:
  "(s \<ge> 0.7 \<longrightarrow> get_data_availability_level s = ''Rich Data'') \<and>
   (0.4 \<le> s \<and> s < 0.7 \<longrightarrow> get_data_availability_level s = ''Moderate Data'') \<and>
   (s < 0.4 \<longrightarrow> get_data_availability_level s = ''Limited Data'') \<and>
   get_data_availability_level 0.39 = ''Limited Data'' \<and>
   get_data_availability_level 0.4 = ''Moderate Data'' \<and>
   get_data_availability_level 0.69 = ''Moderate Data'' \<and>
   get_data_availability_level 0.7 = ''Rich Data''"
  by (simp add: get_data_availability_level_def)

theorem coverage_levels_witness:
  "get_data_availability_level (8 / 11) = ''Rich Data'' \<and>
   get_data_availability_level (5 / 11) = ''Moderate Data'' \<and>
   get_data_availability_level (4 / 11) = ''Limited Data''"
  using coverage_levels [of "8 / 11"] coverage_levels [of "5 / 11"] coverage_levels [of "4 / 11"]
  by simp

lemma topics_all: "t \<in> set topics"
  by (cases t) (simp_all add: topics_def)

lemma data_fields_topics: "(data_fields :: (state_entry \<Rightarrow> string) list) = map field topics"
  by (simp add: data_fields_def topics_def)

lemma field_state_update [simp]: "field t (e\<lparr>state := n\<rparr>) = field t e"
  by (cases t) simp_all

lemma list_all_setitem: "list_all P sd \<Longrightarrow> P (k, v) \<Longrightarrow> list_all P (setitem k v sd)"
  by (induction sd) auto

lemma clean_map_column: "clean e \<Longrightarrow> clean (map_column l v e)"
  by (auto simp: clean_def list_all_iff map_column_first_rule field_assign has_value_def split: option.split)

lemma clean_map_columns: "clean e \<Longrightarrow> clean (fst (map_columns cols r e))"
  by (induction cols arbitrary: e) (simp_all add: clean_map_column split: sum.split)

lemma clean_default: "clean default_entry"
  by (simp add: clean_def topics_def default_entry_def)

lemma clean_getitem:
  assumes "list_all (\<lambda>p. clean (snd p)) sd"
  shows "clean (getitem sd k)"
proof (cases "map_of sd k")
  case None
  then show ?thesis by (simp add: getitem_def clean_default)
next
  case (Some e)
  then have "(k, e) \<in> set sd" by (rule map_of_SomeD)
  with assms have "clean e" by (auto simp: list_all_iff)
  with Some show ?thesis by (simp add: getitem_def)
qed

lemma clean_process_row:
  assumes "list_all (\<lambda>p. clean (snd p)) sd"
  shows "list_all (\<lambda>p. clean (snd p)) (fst (process_row file cols sc r sd))"
proof -
  let ?n = "state_name_of (r sc)"
  have "clean ((getitem sd ?n)\<lparr>state := ?n\<rparr>)"
    using clean_getitem [OF assms, of ?n] by (simp add: clean_def)
  then have c: "clean (fst (map_columns cols r ((getitem sd ?n)\<lparr>state := ?n\<rparr>)))"
    by (rule clean_map_columns)
  then have "clean (determine_region file (score (fst (map_columns cols r ((getitem sd ?n)\<lparr>state := ?n\<rparr>)))))"
    by (simp add: clean_def)
  with c assms show ?thesis
    by (simp add: process_row_unfold list_all_setitem)
qed

lemma clean_process_files: "list_all (\<lambda>p. clean (snd p)) (process_files fs [])"
  by (rule process_files_invariant) (simp_all add: clean_process_row)

lemma clean_with_state_code:
  "list_all (\<lambda>f. f (with_state_code e) \<noteq> ''nan'') data_fields = clean e"
  by (simp add: clean_def data_fields_def topics_def with_state_code_def state_entry.defs)

text \<open>
  C10. In every record of the returned table, none of the eleven topic fields holds the
  text \<open>nan\<close>: a field starts empty and is written only with a value that is neither
  empty nor \<open>nan\<close>. So for these records the test of a filled field, in the score and
  in the filter alike, comes down to its two other conjuncts.
\<close>

theorem nan_never_stored:
  assumes "load_and_process_data excel_files = Inr table"
  shows "\<forall>x \<in> set table. \<forall>f \<in> set data_fields.
           f x \<noteq> ''nan'' \<and> is_filled (f x) = (f x \<noteq> [] \<and> strip (f x) \<noteq> [])"
proof -
  let ?sd = "process_files excel_files []"
  from assms have t: "table = map with_state_code (map snd ?sd)"
    by (simp add: load_and_process_data_def Let_def split: if_splits)
  have "list_all (\<lambda>p. clean (snd p)) ?sd" by (rule clean_process_files)
  then have "\<forall>p \<in> set ?sd. clean (snd p)" by (simp add: list_all_iff)
  then have "\<forall>x \<in> set table. list_all (\<lambda>f. f x \<noteq> ''nan'') data_fields"
    unfolding t by (auto simp: clean_with_state_code)
  then show ?thesis
    by (auto simp: list_all_iff is_filled_def)
qed

theorem nan_never_stored_witness:
  "load_and_process_data [nan_sheet] = Inr [with_state_code (default_entry\<lparr>state := ''Guam''\<rparr>)] \<and>
   key_statutes (with_state_code (default_entry\<lparr>state := ''Guam''\<rparr>)) \<noteq> ''nan'' \<and>
   civil_rights (with_state_code (default_entry\<lparr>state := ''Guam''\<rparr>)) \<noteq> ''nan''"
proof -
  have h: "load_and_process_data [nan_sheet] =
             Inr [with_state_code (default_entry\<lparr>state := ''Guam''\<rparr>)]"
    by code_simp
  from nan_never_stored [OF h] show ?thesis
    using h by (simp add: data_fields_def)
qed

lemma region_chain_generic:
  "(if P1 x then g r1
    else if P2 x then g r2
    else if P3 x then g r3
    else if P4 x then g r4
    else if P5 x then g r5
    else if P6 x then g r6
    else if P7 x then g r7
    else d) =
   (case first_match [(P1, r1), (P2, r2), (P3, r3), (P4, r4), (P5, r5), (P6, r6), (P7, r7)] x
    of None \<Rightarrow> d | Some t \<Rightarrow> g t)"
  by simp

lemma determine_region_file_region:
  "determine_region file e =
     (case file_region file of None \<Rightarrow> e | Some rg \<Rightarrow> e\<lparr>region := rg\<rparr>)"
  unfolding file_region_def region_rules_def
  by (subst region_chain_generic [symmetric]) (simp only: determine_region_def)

text \<open>Where every column label is a string, no row is cut short.\<close>

lemma textual_map_columns: "list_all textual cols \<Longrightarrow> snd (map_columns cols r e) = None"
proof (induction cols arbitrary: e)
  case Nil
  then show ?case by simp
next
  case (Cons col cols)
  then show ?case by (cases col) simp_all
qed

lemma textual_process_row:
  "list_all textual cols \<Longrightarrow> snd (process_row file cols sc r sd) = None"
  by (simp add: process_row_unfold textual_map_columns)

lemma data_fields_frame:
  assumes "f \<in> set data_fields"
  shows "f (e\<lparr>region := rg\<rparr>) = f e"
    and "f (e\<lparr>data_availability := d\<rparr>) = f e"
    and "f (e\<lparr>state := n\<rparr>) = f e"
  using assms by (auto simp: data_fields_def)

lemma filled_fields_frame [simp]:
  "filled_fields (e\<lparr>region := rg\<rparr>) = filled_fields e"
  "filled_fields (e\<lparr>data_availability := d\<rparr>) = filled_fields e"
  "filled_fields (e\<lparr>state := n\<rparr>) = filled_fields e"
  unfolding filled_fields_def
  by (rule arg_cong [where f = length], rule filter_cong, simp, simp add: data_fields_frame)+

lemma filled_fields_determine_region [simp]:
  "filled_fields (determine_region file e) = filled_fields e"
  by (simp add: determine_region_file_region split: option.split)

lemma filled_fields_score [simp]: "filled_fields (score e) = filled_fields e"
  by (simp add: score_def)

lemma length_data_fields: "length (data_fields :: (state_entry \<Rightarrow> string) list) = 11"
  by (simp add: data_fields_def)

text \<open>
  C2, as amended. After a row that is processed to its end, the record it touched has a
  \<open>data_availability\<close> equal to the number of its topic fields that are filled, divided
  by eleven, where a field is filled when it is non-empty, still non-empty once white space
  is trimmed, and not the text \<open>nan\<close>. A field that holds white space only is stored
  (the write tests the untrimmed value) and is not counted, so the count of non-empty
  fields can exceed the score, as the sheet \<open>blank_sheet\<close> shows below. A row cut
  short by an exception is not scored; no row is cut short where the labels are strings
  (\<open>textual_process_row\<close>).
\<close>

theorem coverage_after_row:
  assumes "process_row file cols sc r sd = (sd', None)"
    and "\<not> skipped (state_name_of (r sc))"
  shows "data_availability (getitem sd' (state_name_of (r sc))) =
           real (length (filter (\<lambda>f. f (getitem sd' (state_name_of (r sc))) \<noteq> [] \<and>
                                     strip (f (getitem sd' (state_name_of (r sc)))) \<noteq> [] \<and>
                                     f (getitem sd' (state_name_of (r sc))) \<noteq> ''nan'')
                         data_fields)) / 11"
proof -
  let ?n = "state_name_of (r sc)"
  let ?e = "fst (map_columns cols r ((getitem sd ?n)\<lparr>state := ?n\<rparr>))"
  from assms have "sd' = setitem ?n (determine_region file (score ?e)) sd"
    by (simp add: process_row_unfold split: if_splits)
  then have g: "getitem sd' ?n = determine_region file (score ?e)"
    by (simp add: getitem_setitem)
  have "data_availability (determine_region file (score ?e)) = real (filled_fields ?e) / 11"
    by (simp add: score_def length_data_fields)
  also have "filled_fields ?e = filled_fields (getitem sd' ?n)"
    by (simp add: g)
  finally show ?thesis
    by (simp add: g filled_fields_def is_filled_def)
qed

theorem coverage_after_row_witness:
  "process_row ''Midwest-states.xlsx'' blank_cols (Label ''State'') (row_of blank_row) [] =
     ([(''Ohio'', blank_entry)], None) \<and>
   \<not> skipped (state_name_of (row_of blank_row (Label ''State''))) \<and>
   state_name_of (row_of blank_row (Label ''State'')) = ''Ohio'' \<and>
   data_availability (getitem [(''Ohio'', blank_entry)] ''Ohio'') = 1 / 11"
proof -
  have h1: "process_row ''Midwest-states.xlsx'' blank_cols (Label ''State'') (row_of blank_row) [] =
     ([(''Ohio'', blank_entry)], None)"
    by code_simp
  have h2: "\<not> skipped (state_name_of (row_of blank_row (Label ''State'')))"
    by code_simp
  have n: "state_name_of (row_of blank_row (Label ''State'')) = ''Ohio''"
    by code_simp
  have c: "length (filter (\<lambda>f. f (getitem [(''Ohio'', blank_entry)] ''Ohio'') \<noteq> [] \<and>
                               strip (f (getitem [(''Ohio'', blank_entry)] ''Ohio'')) \<noteq> [] \<and>
                               f (getitem [(''Ohio'', blank_entry)] ''Ohio'') \<noteq> ''nan'')
                     data_fields) = 1"
    by code_simp
  from coverage_after_row [OF h1 h2] h1 h2 n c show ?thesis
    by simp
qed

theorem coverage_counts_non_empty_counterexample:
  "load_and_process_data [blank_sheet] = Inr [with_state_code blank_entry] \<and>
   non_empty_fields (with_state_code blank_entry) = 3 \<and>
   data_availability (with_state_code blank_entry) = 1 / 11 \<and>
   data_availability (with_state_code blank_entry) \<noteq>
     real (non_empty_fields (with_state_code blank_entry)) / 11"
  by code_simp

lemma scored_default: "scored default_entry"
  by (simp add: scored_def filled_fields_def data_fields_def default_entry_def is_filled_def)

lemma scored_row_result: "scored (determine_region file (score e))"
  by (simp add: scored_def) (simp add: score_def length_data_fields)

lemma scored_process_row:
  assumes "list_all textual cols" and "list_all (\<lambda>p. scored (snd p)) sd"
  shows "list_all (\<lambda>p. scored (snd p)) (fst (process_row file cols sc r sd))"
  using assms
  by (simp add: process_row_unfold textual_map_columns list_all_setitem scored_row_result)

lemma scored_process_rows:
  assumes "list_all textual cols"
  shows "list_all (\<lambda>p. scored (snd p)) sd \<Longrightarrow>
         list_all (\<lambda>p. scored (snd p)) (fst (process_rows file cols sc rs sd))"
proof (induction rs arbitrary: sd)
  case Nil
  then show ?case by simp
next
  case (Cons r rs)
  have "list_all (\<lambda>p. scored (snd p)) (fst (process_row file cols sc r sd))"
    using assms Cons.prems by (rule scored_process_row)
  with Cons.IH show ?case
    by (cases "process_row file cols sc r sd") (auto split: option.split)
qed

lemma scored_process_files:
  "list_all textual_file fs \<Longrightarrow> list_all (\<lambda>p. scored (snd p)) sd \<Longrightarrow>
   list_all (\<lambda>p. scored (snd p)) (process_files fs sd)"
proof (induction fs arbitrary: sd)
  case Nil
  then show ?case by simp
next
  case (Cons f fs)
  from Cons.prems have "list_all (\<lambda>p. scored (snd p)) (fst (process_file f sd))"
    by (auto simp: process_file_def textual_file_def scored_process_rows
          split: option.split sum.split)
  with Cons show ?case by simp
qed

lemma topic_values_with_state_code:
  "map (\<lambda>f. f (with_state_code e)) data_fields = map (\<lambda>f. f e) data_fields"
  by (simp add: data_fields_def with_state_code_def state_entry.defs)

lemma filled_fields_values:
  "filled_fields x = length (filter is_filled (map (\<lambda>f. f x) data_fields))"
  by (simp add: filled_fields_def filter_map o_def)

lemma scored_with_state_code: "scored (with_state_code e) = scored e"
proof -
  have "filled_fields (with_state_code e) = filled_fields e"
    by (simp only: filled_fields_values topic_values_with_state_code)
  moreover have "data_availability (with_state_code e) = data_availability e"
    by (simp add: with_state_code_def state_entry.defs)
  ultimately show ?thesis
    by (simp add: scored_def)
qed

text \<open>
  Where every label of every file is a string, every record of the returned table is
  scored: its \<open>data_availability\<close> is its number of filled topic fields over eleven.
\<close>

lemma table_scored:
  assumes "load_and_process_data excel_files = Inr table"
    and "list_all textual_file excel_files"
  shows "list_all scored table"
proof -
  let ?sd = "process_files excel_files []"
  from assms(1) have t: "table = map with_state_code (map snd ?sd)"
    by (simp add: load_and_process_data_def Let_def split: if_splits)
  have "list_all (\<lambda>p. scored (snd p)) ?sd"
    using assms(2) by (rule scored_process_files) simp
  then show ?thesis
    unfolding t by (simp add: list_all_iff scored_with_state_code)
qed

lemma map_columns_keeps:
  "\<not> supplies cols r t \<Longrightarrow> field t (fst (map_columns cols r e)) = field t e"
proof (induction cols arbitrary: e)
  case Nil
  then show ?case by simp
next
  case (Cons col cols)
  show ?case
  proof (cases col)
    case (NumLabel n)
    then show ?thesis by simp
  next
    case (Label s)
    with Cons.prems have rest: "\<not> supplies cols r t"
      and here: "first_rule (lower s) = Some t \<longrightarrow> cell_value (r col) = []"
      by (simp_all add: supplies_def)
    from here have "field t (map_column (lower s) (cell_value (r col)) e) = field t e"
      by (auto simp: map_column_first_rule field_assign has_value_def split: option.split)
    with Cons.IH [OF rest] Label show ?thesis by simp
  qed
qed

text \<open>
  C3. Processing a row that supplies no non-empty value for a topic (every column
  classified to that topic has an empty or missing cell) leaves that topic field of every
  record as it was; in particular a field that was set stays set. With file A setting
  \<open>vulnerable_protections\<close> to X and file B leaving it empty, the value stays X.
\<close>

theorem empty_cell_keeps_field:
  assumes "\<not> supplies cols r t"
  shows "field t (getitem (fst (process_row file cols sc r sd)) k) = field t (getitem sd k)"
  using map_columns_keeps [OF assms]
  by (simp add: process_row_unfold getitem_setitem)

theorem empty_cell_keeps_field_witness:
  "vulnerable_protections (getitem (process_files [midwest_sheet] []) ''Ohio'') = ''X'' \<and>
   \<not> supplies northeast_cols (row_of northeast_row) Vulnerable_protections \<and>
   vulnerable_protections
     (getitem (fst (process_row ''Northeast-states.xlsx'' northeast_cols (Label ''Jurisdiction'')
                      (row_of northeast_row) (process_files [midwest_sheet] []))) ''Ohio'') = ''X''"
proof -
  have a: "vulnerable_protections (getitem (process_files [midwest_sheet] []) ''Ohio'') = ''X''"
    by code_simp
  have b: "\<not> supplies northeast_cols (row_of northeast_row) Vulnerable_protections"
    by code_simp
  from empty_cell_keeps_field [OF b, of "''Northeast-states.xlsx''" "Label ''Jurisdiction''"
         "process_files [midwest_sheet] []" "''Ohio''"] a b
  show ?thesis by simp
qed

text \<open>
  The region after one row. A record that is not yet in the dictionary has region
  Unknown. A row changes the region of the record it touches, and of no other, exactly
  when it is processed to its end and the file name matches a region rule; the new region
  is that of the first rule matched, whatever the region was before. So a file without a
  region never overwrites one, and of two files whose rows run to their end the later one
  wins: Midwest then Northeast gives Northeast.
\<close>

lemma region_after_row:
  "(map_of sd k = None \<longrightarrow> region (getitem sd k) = ''Unknown'') \<and>
   region (getitem (fst (process_row file cols sc r sd)) k) =
     (if k = state_name_of (r sc) \<and> \<not> skipped (state_name_of (r sc)) \<and>
         snd (process_row file cols sc r sd) = None
      then (case file_region file of Some rg \<Rightarrow> rg | None \<Rightarrow> region (getitem sd k))
      else region (getitem sd k))"
proof
  show "map_of sd k = None \<longrightarrow> region (getitem sd k) = ''Unknown''"
    by (simp add: getitem_def default_entry_def)
next
  let ?n = "state_name_of (r sc)"
  let ?res = "map_columns cols r ((getitem sd ?n)\<lparr>state := ?n\<rparr>)"
  have r1: "region (fst ?res) = region (getitem sd ?n)"
    by simp
  have r2: "region (determine_region file (score (fst ?res))) =
              (case file_region file of Some rg \<Rightarrow> rg | None \<Rightarrow> region (getitem sd ?n))"
    by (simp add: determine_region_file_region split: option.split)
  show "region (getitem (fst (process_row file cols sc r sd)) k) =
     (if k = ?n \<and> \<not> skipped ?n \<and> snd (process_row file cols sc r sd) = None
      then (case file_region file of Some rg \<Rightarrow> rg | None \<Rightarrow> region (getitem sd k))
      else region (getitem sd k))"
  proof (cases "skipped ?n")
    case True
    then show ?thesis by (simp add: process_row_unfold)
  next
    case False
    show ?thesis
    proof (cases "snd ?res = None")
      case True
      with False r2 show ?thesis
        by (auto simp: process_row_unfold getitem_setitem)
    next
      case n: False
      with False r1 show ?thesis
        by (auto simp: process_row_unfold getitem_setitem)
    qed
  qed
qed

lemma region_after_row_example:
  "region (getitem (process_files [midwest_sheet] []) ''Ohio'') = ''Midwest'' \<and>
   file_region ''Northeast-states.xlsx'' = Some ''Northeast'' \<and>
   region (getitem (fst (process_row ''Northeast-states.xlsx'' northeast_cols (Label ''Jurisdiction'')
                           (row_of northeast_row) (process_files [midwest_sheet] []))) ''Ohio'') =
     ''Northeast''"
proof -
  have a: "region (getitem (process_files [midwest_sheet] []) ''Ohio'') = ''Midwest''"
    by code_simp
  have b: "file_region ''Northeast-states.xlsx'' = Some ''Northeast''"
    by code_simp
  have n: "state_name_of (row_of northeast_row (Label ''Jurisdiction'')) = ''Ohio''"
    by code_simp
  have s: "\<not> skipped ''Ohio''"
    by code_simp
  have d: "snd (process_row ''Northeast-states.xlsx'' northeast_cols (Label ''Jurisdiction'')
                 (row_of northeast_row) (process_files [midwest_sheet] [])) = None"
    by code_simp
  from region_after_row
         [of "process_files [midwest_sheet] []" "''Ohio''" "''Northeast-states.xlsx''"
             northeast_cols "Label ''Jurisdiction''" "row_of northeast_row"] a b n s d
  show ?thesis by simp
qed

text \<open>
  C4. Of several files that classify a jurisdiction, the one processed last is to give the
  record its region. The code does so only where the row runs to its end. In
  \<open>northeast_b_sheet\<close> a header cell holds a number: the row for Ohio writes
  \<open>mitigation_planning\<close>, then \<open>col.lower()\<close> raises on the numeric label, the
  \<open>except\<close> of the file loop takes over, and the region assignment is never reached.
  Ohio keeps the region of the earlier file, Midwest, although the later file is
  classified Northeast and has written into the record.
\<close>

theorem region_kept_after_aborted_row:
  "load_and_process_data [midwest_a_sheet, northeast_b_sheet] =
     Inr [with_state_code (default_entry\<lparr>state := ''Ohio'', key_statutes := ''S1'',
            mitigation_planning := ''M1'', data_availability := 1 / 11,
            region := ''Midwest''\<rparr>)] \<and>
   file_region ''Midwest-a.xlsx'' = Some ''Midwest'' \<and>
   file_region ''Northeast-b.xlsx'' = Some ''Northeast'' \<and>
   mitigation_planning (getitem (process_files [midwest_a_sheet] []) ''Ohio'') = [] \<and>
   region (getitem (process_files [midwest_a_sheet, northeast_b_sheet] []) ''Ohio'') = ''Midwest''"
  by code_simp

text \<open>
  C7, as amended. With the data-type filter set to Civil Rights, the filtered frame holds
  exactly the records of the table whose \<open>civil_rights\<close> is non-empty, non-empty after
  trimming white space, and not \<open>nan\<close>, and, where the region filter is not All, whose
  region is the chosen one; the table itself is left as it was. A record whose
  \<open>civil_rights\<close> is white space only is left out although the field is non-empty, as
  the record that \<open>blank_sheet\<close> yields shows below.
\<close>

theorem civil_rights_filter:
  assumes "filter_data_type ss = ''Civil Rights''"
  shows "filtered_df (apply_filters ss m) =
           filter (\<lambda>x. (civil_rights x \<noteq> [] \<and> strip (civil_rights x) \<noteq> [] \<and>
                         civil_rights x \<noteq> ''nan'') \<and>
                        (filter_region ss \<noteq> ''All'' \<longrightarrow> region x = filter_region ss)) (df m) \<and>
         df (apply_filters ss m) = df m"
proof -
  have k: "keep ''civil_rights'' rows = filter (\<lambda>x. is_filled (civil_rights x)) rows" for rows
    by (simp add: keep_def has_specific_data_type_def field_mapping_def)
  show ?thesis
    using assms
    by (simp add: apply_filters_def Let_def k is_filled_def conj_commute)
qed

theorem civil_rights_filter_witness:
  "filtered_df
     (apply_filters
        \<lparr>selected_state = None, filter_data_type = ''Civil Rights'', filter_region = ''Midwest''\<rparr>
        \<lparr>df = regions_table, filtered_df = []\<rparr>) =
     [with_state_code (default_entry\<lparr>state := ''Ohio'', civil_rights := ''Act 1'',
        region := ''Midwest''\<rparr>)] \<and>
   df (apply_filters
        \<lparr>selected_state = None, filter_data_type = ''Civil Rights'', filter_region = ''Midwest''\<rparr>
        \<lparr>df = regions_table, filtered_df = []\<rparr>) = regions_table"
proof -
  have e: "filter (\<lambda>x. (civil_rights x \<noteq> [] \<and> strip (civil_rights x) \<noteq> [] \<and>
                         civil_rights x \<noteq> ''nan'') \<and>
                        (''Midwest'' \<noteq> ''All'' \<longrightarrow> region x = ''Midwest'')) regions_table =
     [with_state_code (default_entry\<lparr>state := ''Ohio'', civil_rights := ''Act 1'',
        region := ''Midwest''\<rparr>)]"
    by code_simp
  from civil_rights_filter
         [of "\<lparr>selected_state = None, filter_data_type = ''Civil Rights'',
               filter_region = ''Midwest''\<rparr>"
             "\<lparr>df = regions_table, filtered_df = []\<rparr>"] e
  show ?thesis by simp
qed

theorem civil_rights_filter_counterexample:
  "load_and_process_data [blank_sheet] = Inr [with_state_code blank_entry] \<and>
   civil_rights (with_state_code blank_entry) \<noteq> [] \<and>
   civil_rights (with_state_code blank_entry) \<noteq> ''nan'' \<and>
   filtered_df
     (apply_filters
        \<lparr>selected_state = None, filter_data_type = ''Civil Rights'', filter_region = ''All''\<rparr>
        \<lparr>df = [with_state_code blank_entry], filtered_df = []\<rparr>) = []"
  by code_simp

text \<open>
  C9. The count shown as US States is the number of filtered records whose name is none of
  six listed names (the federal district and five territories), not the number whose name
  is one of the fifty states. A record named Navajo Nation, which ingestion builds like
  any other, is counted as a state.
\<close>

theorem us_states_counts_unlisted_name:
  "load_and_process_data [unlisted_sheet] =
     Inr [with_state_code (default_entry\<lparr>state := ''Navajo Nation'', mutual_aid := ''Compact'',
            data_availability := 1 / 11, region := ''Southwest''\<rparr>)] \<and>
   ''Navajo Nation'' \<notin> set fifty_states \<and>
   total_states
     [with_state_code (default_entry\<lparr>state := ''Navajo Nation'', mutual_aid := ''Compact'',
        data_availability := 1 / 11, region := ''Southwest''\<rparr>)] = 1"
  by code_simp

end
